theory Spec2Isabelle
  imports Complex_Main
begin

section \<open>Python values, exceptions and the recorded transport\<close>

text \<open>
  The values that cross the library's interface: JSON-like data (tokens, payloads,
  credentials), instances of \<^verbatim>\<open>httpx.Auth\<close>, and plain objects with attributes.
  A \<^verbatim>\<open>dict\<close> is an association list from string keys to values, read with
  \<open>map_of\<close>. \<open>PAuth n\<close> is an opaque pre-built instance of \<^verbatim>\<open>httpx.Auth\<close>;
  \<open>PBasicAuth u p\<close> stands for \<^verbatim>\<open>httpx.BasicAuth(u, p)\<close> (a subclass of
  \<^verbatim>\<open>httpx.Auth\<close>) and records the two arguments it was built from; \<open>PObj attrs\<close> is any
  other object, given by its attributes.
\<close>

datatype pyval =
    PNone
  | PBool bool
  | PInt int
  | PStr string
  | PList "pyval list"
  | PDict "(string \<times> pyval) list"
  | PAuth nat
  | PBasicAuth pyval pyval
  | PObj "(string \<times> pyval) list"

text \<open>
  Exceptions, with their messages: \<^verbatim>\<open>ValueError\<close> and \<^verbatim>\<open>TypeError\<close>, which
  \<^verbatim>\<open>utility.py\<close> raises itself, and \<^verbatim>\<open>httpx.InvalidURL\<close>, which the HTTP library
  raises for a URL it refuses.
\<close>

datatype error = ValueError string | TypeError string | InvalidURL string

text \<open>Python's truth value of an object, as \<^verbatim>\<open>not x\<close> and \<^verbatim>\<open>x or y\<close> test it.\<close>

fun truthy :: "pyval \<Rightarrow> bool" where
  "truthy PNone = False"
| "truthy (PBool b) = b"
| "truthy (PInt i) = (i \<noteq> 0)"
| "truthy (PStr s) = (s \<noteq> [])"
| "truthy (PList xs) = (xs \<noteq> [])"
| "truthy (PDict kvs) = (kvs \<noteq> [])"
| "truthy (PAuth n) = True"
| "truthy (PBasicAuth u p) = True"
| "truthy (PObj attrs) = True"

text \<open>\<^verbatim>\<open>x or y\<close>: the first operand when it is true, the second otherwise.\<close>

definition py_or :: "pyval \<Rightarrow> pyval \<Rightarrow> pyval" where
  "py_or x y = (if truthy x then x else y)"

text \<open>\<^verbatim>\<open>d.get(k)\<close> on a dict: the value, or \<^verbatim>\<open>None\<close> for a missing key.\<close>

definition dict_get :: "(string \<times> pyval) list \<Rightarrow> string \<Rightarrow> pyval" where
  "dict_get d k = (case map_of d k of None \<Rightarrow> PNone | Some v \<Rightarrow> v)"

fun isinstance_str :: "pyval \<Rightarrow> bool" where
  "isinstance_str (PStr s) = True"
| "isinstance_str v = False"

fun isinstance_dict :: "pyval \<Rightarrow> bool" where
  "isinstance_dict (PDict d) = True"
| "isinstance_dict v = False"

fun isinstance_Auth :: "pyval \<Rightarrow> bool" where
  "isinstance_Auth (PAuth n) = True"
| "isinstance_Auth (PBasicAuth u p) = True"
| "isinstance_Auth v = False"

text \<open>\<^verbatim>\<open>hasattr(x, name)\<close>: only a \<open>PObj\<close> carries attributes of its own.\<close>

fun hasattr :: "pyval \<Rightarrow> string \<Rightarrow> bool" where
  "hasattr (PObj attrs) name = (map_of attrs name \<noteq> None)"
| "hasattr v name = False"

fun getattr :: "pyval \<Rightarrow> string \<Rightarrow> pyval" where
  "getattr (PObj attrs) name = dict_get attrs name"
| "getattr v name = PNone"

subsection \<open>The HTTP library\<close>

text \<open>
  \<^verbatim>\<open>httpx\<close> is not part of this repository. Two of its constructors are called before
  any request is sent and may raise; what they raise is a parameter of the model:
  \<open>AsyncClient_raises lib url\<close> is the exception of
  \<^verbatim>\<open>httpx.AsyncClient(base_url=url, timeout=...)\<close>, if it raises one, and
  \<open>BasicAuth_raises lib u p\<close> that of \<^verbatim>\<open>httpx.BasicAuth(u, p)\<close>.
\<close>

record httpx =
  AsyncClient_raises :: "string \<Rightarrow> error option"
  BasicAuth_raises :: "pyval \<Rightarrow> pyval \<Rightarrow> error option"

text \<open>
  \<^verbatim>\<open>httpx.AsyncClient(base_url=url, timeout=timeout)\<close>: the exception it raises, if any.
  The empty string is the constructor's own default for \<^verbatim>\<open>base_url\<close> and is accepted;
  for any other URL the library decides.
\<close>

definition AsyncClient :: "httpx \<Rightarrow> string \<Rightarrow> error option" where
  "AsyncClient lib url = (if url = [] then None else AsyncClient_raises lib url)"

text \<open>
  \<^verbatim>\<open>httpx.BasicAuth(username, password)\<close>: its parameters are declared as strings (or
  bytes), and for two strings it returns the auth object; for any other argument the
  library decides whether it raises (recent versions build the header at once and raise
  \<^verbatim>\<open>TypeError\<close>).
\<close>

definition BasicAuth :: "httpx \<Rightarrow> pyval \<Rightarrow> pyval \<Rightarrow> error + pyval" where
  "BasicAuth lib username password =
     (if isinstance_str username \<and> isinstance_str password
      then Inr (PBasicAuth username password)
      else (case BasicAuth_raises lib username password of
              Some e \<Rightarrow> Inl e
            | None \<Rightarrow> Inr (PBasicAuth username password)))"

text \<open>
  A library for the examples below. Like \<^verbatim>\<open>httpx\<close>, it refuses a URL that holds a
  line feed and a \<^verbatim>\<open>BasicAuth\<close> of anything but strings.
\<close>

definition example_httpx :: httpx where
  "example_httpx =
     \<lparr>AsyncClient_raises =
        (\<lambda>url. if CHR 0x0A \<in> set url
               then Some (InvalidURL ''Invalid non-printable ASCII character in URL'')
               else None),
      BasicAuth_raises =
        (\<lambda>u p. Some (TypeError ''expected a bytes-like object''))\<rparr>"

text \<open>
  \<^verbatim>\<open>str(n)\<close> for an integer, used where an f-string formats an identifier that may be
  an \<^verbatim>\<open>int\<close> or a \<^verbatim>\<open>str\<close>.
\<close>

fun digits :: "nat \<Rightarrow> string" where
  "digits n =
     (if n < 10 then [char_of (48 + n)]
      else digits (n div 10) @ [char_of (48 + n mod 10)])"

definition str_int :: "int \<Rightarrow> string" where
  "str_int i = (if i < 0 then CHR ''-'' # digits (nat (- i)) else digits (nat i))"

datatype ident = IdInt int | IdStr string

fun format_ident :: "ident \<Rightarrow> string" where
  "format_ident (IdInt i) = str_int i"
| "format_ident (IdStr s) = s"

subsection \<open>Requests handed to the underlying HTTP client\<close>

datatype verb = GET | POST | PUT | DELETE

text \<open>
  The keyword arguments the facades pass on: \<^verbatim>\<open>json\<close>, \<^verbatim>\<open>params\<close> and \<^verbatim>\<open>auth\<close>;
  \<open>None\<close> for one that is not passed (or passed as \<^verbatim>\<open>None\<close>).
\<close>

record kwargs =
  json :: "pyval option"
  params :: "pyval option"
  auth :: "pyval option"

definition no_kwargs :: kwargs where
  "no_kwargs = \<lparr>json = None, params = None, auth = None\<rparr>"

record request =
  req_verb :: verb
  req_path :: string
  req_kwargs :: kwargs

text \<open>
  What has been asked of the \<^verbatim>\<open>httpx.AsyncClient\<close> a \<^verbatim>\<open>ServiceClient\<close> owns: the
  requests sent through it and \<^verbatim>\<open>aclose()\<close>, in order.
\<close>

datatype transport_call = Send request | Aclose

text \<open>
  The network is a parameter: given what the HTTP client was asked before and the request,
  it yields the outcome of the call (of any type \<open>'r\<close>: a response, or whatever the HTTP
  client raises for it), which the wrapper hands back without looking at it.
\<close>

type_synonym 'r net = "transport_call list \<Rightarrow> request \<Rightarrow> 'r"

section \<open>ServiceClient\<close>

record ServiceClient =
  base_url :: string
  timeout :: real
  calls :: "transport_call list"

text \<open>\<^verbatim>\<open>s.rstrip("/")\<close>: the string without its trailing slashes.\<close>

definition rstrip_slash :: "string \<Rightarrow> string" where
  "rstrip_slash s = rev (dropWhile (\<lambda>c. c = CHR ''/'') (rev s))"

text \<open>
  \<^verbatim>\<open>ServiceClient.__init__\<close>: the check for an empty URL comes first, then the strip,
  then the \<^verbatim>\<open>httpx.AsyncClient\<close> is created on the stripped URL. An exception of that
  constructor leaves \<^verbatim>\<open>__init__\<close> and no client is constructed; otherwise the client
  starts with no call made.
\<close>

definition ServiceClient_init :: "httpx \<Rightarrow> string \<Rightarrow> real \<Rightarrow> error + ServiceClient" where
  "ServiceClient_init lib url t =
     (if url = [] then Inl (ValueError ''base_url is required'')
      else (case AsyncClient lib (rstrip_slash url) of
              Some e \<Rightarrow> Inl e
            | None \<Rightarrow> Inr \<lparr>base_url = rstrip_slash url, timeout = t, calls = []\<rparr>))"

text \<open>\<^verbatim>\<open>ServiceClient._normalise\<close>.\<close>

definition normalise :: "string \<Rightarrow> string" where
  "normalise endpoint =
     (if take 1 endpoint = ''/'' then endpoint else CHR ''/'' # endpoint)"

text \<open>
  \<^verbatim>\<open>get\<close>, \<^verbatim>\<open>post\<close>, \<^verbatim>\<open>put\<close> and \<^verbatim>\<open>delete\<close>: normalise the endpoint, hand
  the request with the caller's keyword arguments to the HTTP client, return its outcome.
\<close>

definition ServiceClient_get ::
  "'r net \<Rightarrow> string \<Rightarrow> kwargs \<Rightarrow> ServiceClient \<Rightarrow> 'r \<times> ServiceClient" where
  "ServiceClient_get net endpoint kw c =
     (let path = normalise endpoint;
          rq = \<lparr>req_verb = GET, req_path = path, req_kwargs = kw\<rparr>
      in (net (calls c) rq, c\<lparr>calls := calls c @ [Send rq]\<rparr>))"

definition ServiceClient_post ::
  "'r net \<Rightarrow> string \<Rightarrow> kwargs \<Rightarrow> ServiceClient \<Rightarrow> 'r \<times> ServiceClient" where
  "ServiceClient_post net endpoint kw c =
     (let path = normalise endpoint;
          rq = \<lparr>req_verb = POST, req_path = path, req_kwargs = kw\<rparr>
      in (net (calls c) rq, c\<lparr>calls := calls c @ [Send rq]\<rparr>))"

definition ServiceClient_put ::
  "'r net \<Rightarrow> string \<Rightarrow> kwargs \<Rightarrow> ServiceClient \<Rightarrow> 'r \<times> ServiceClient" where
  "ServiceClient_put net endpoint kw c =
     (let path = normalise endpoint;
          rq = \<lparr>req_verb = PUT, req_path = path, req_kwargs = kw\<rparr>
      in (net (calls c) rq, c\<lparr>calls := calls c @ [Send rq]\<rparr>))"

definition ServiceClient_delete ::
  "'r net \<Rightarrow> string \<Rightarrow> kwargs \<Rightarrow> ServiceClient \<Rightarrow> 'r \<times> ServiceClient" where
  "ServiceClient_delete net endpoint kw c =
     (let path = normalise endpoint;
          rq = \<lparr>req_verb = DELETE, req_path = path, req_kwargs = kw\<rparr>
      in (net (calls c) rq, c\<lparr>calls := calls c @ [Send rq]\<rparr>))"

definition ServiceClient_close :: "ServiceClient \<Rightarrow> ServiceClient" where
  "ServiceClient_close c = c\<lparr>calls := calls c @ [Aclose]\<rparr>"

text \<open>
  The address a request goes to, as the wrapper logs it: the stored base URL followed by
  the normalised path.
\<close>

definition request_url :: "ServiceClient \<Rightarrow> request \<Rightarrow> string" where
  "request_url c rq = base_url c @ req_path rq"

section \<open>Token payloads\<close>

text \<open>\<^verbatim>\<open>_normalise_token_payload\<close>.\<close>

fun normalise_token_payload :: "pyval \<Rightarrow> error + pyval" where
  "normalise_token_payload (PStr s) = Inr (PDict [(''token'', PStr s)])"
| "normalise_token_payload (PDict d) =
     (case map_of d ''token'' of
        Some v \<Rightarrow> Inr (PDict [(''token'', v)])
      | None \<Rightarrow> Inr (PDict d))"
| "normalise_token_payload v =
     Inl (TypeError ''token must be a str or dict with token information'')"

section \<open>Service facades\<close>

datatype facade =
    AdminManagementService
  | AlertAndEventProcessingService
  | DeviceCommandService
  | DeviceOnboardingService
  | DeviceTelemetryService
  | HealthMonitoringService
  | NotificationMicroserviceService
  | ParkingSlotService
  | UserAuthenticationService

text \<open>The environment variable each constructor reads, and its hardcoded default.\<close>

fun env_var :: "facade \<Rightarrow> string" where
  "env_var AdminManagementService = ''ADMIN_MANAGEMENT_SERVICE_URL''"
| "env_var AlertAndEventProcessingService = ''ALERT_EVENT_PROCESSING_SERVICE_URL''"
| "env_var DeviceCommandService = ''DEVICE_COMMAND_SERVICE_URL''"
| "env_var DeviceOnboardingService = ''DEVICE_ONBOARDING_SERVICE_URL''"
| "env_var DeviceTelemetryService = ''DEVICE_TELEMETRY_SERVICE_URL''"
| "env_var HealthMonitoringService = ''HEALTH_MONITORING_SERVICE_URL''"
| "env_var NotificationMicroserviceService = ''NOTIFICATION_SERVICE_URL''"
| "env_var ParkingSlotService = ''PARKING_SLOT_SERVICE_URL''"
| "env_var UserAuthenticationService = ''USER_AUTH_SERVICE_URL''"

fun default_url :: "facade \<Rightarrow> string" where
  "default_url AdminManagementService = ''http://admin-management-service:8000''"
| "default_url AlertAndEventProcessingService = ''http://alert-event-processing-service:8000''"
| "default_url DeviceCommandService = ''http://device-command-service:8000''"
| "default_url DeviceOnboardingService = ''http://device-onboarding-service:8000''"
| "default_url DeviceTelemetryService = ''http://device-telemetry-service:8000''"
| "default_url HealthMonitoringService = ''http://health-monitoring-service:8000''"
| "default_url NotificationMicroserviceService = ''http://notification-service:8000''"
| "default_url ParkingSlotService = ''http://parking-slot-service:8000''"
| "default_url UserAuthenticationService = ''http://user-auth-service:8000''"

text \<open>\<^verbatim>\<open>os.getenv(name, default)\<close> over an environment \<open>env\<close>.\<close>

definition getenv :: "(string \<rightharpoonup> string) \<Rightarrow> string \<Rightarrow> string \<Rightarrow> string" where
  "getenv env name dflt = (case env name of Some v \<Rightarrow> v | None \<Rightarrow> dflt)"

text \<open>
  The nine constructors have one body,
  \<^verbatim>\<open>service_url = base_url or os.getenv(VAR, DEFAULT); self.client = ServiceClient(service_url, timeout=timeout)\<close>.
  The argument \<^verbatim>\<open>base_url\<close> is \<^verbatim>\<open>None\<close> or a string, and \<^verbatim>\<open>or\<close> takes the
  environment's side for \<^verbatim>\<open>None\<close> and for the empty string. A facade has no state but
  its \<^verbatim>\<open>client\<close>, so the constructed facade is given by that client.
\<close>

definition facade_init ::
  "httpx \<Rightarrow> facade \<Rightarrow> string option \<Rightarrow> real \<Rightarrow> (string \<rightharpoonup> string) \<Rightarrow>
   error + ServiceClient" where
  "facade_init lib f base_url_arg t env =
     (let service_url =
        (case base_url_arg of
           Some u \<Rightarrow> if u \<noteq> [] then u else getenv env (env_var f) (default_url f)
         | None \<Rightarrow> getenv env (env_var f) (default_url f))
      in ServiceClient_init lib service_url t)"

text \<open>A facade method returns what the client's verb returned.\<close>

definition returning :: "'r \<times> ServiceClient \<Rightarrow> (error + 'r) \<times> ServiceClient" where
  "returning p = (Inr (fst p), snd p)"

definition json_kw :: "pyval \<Rightarrow> kwargs" where
  "json_kw body = \<lparr>json = Some body, params = None, auth = None\<rparr>"

subsection \<open>AdminManagementService\<close>

definition AdminManagementService_register_admin ::
  "'r net \<Rightarrow> pyval \<Rightarrow> ServiceClient \<Rightarrow> (error + 'r) \<times> ServiceClient" where
  "AdminManagementService_register_admin net admin_data c =
     returning (ServiceClient_post net ''/register_admin'' (json_kw admin_data) c)"

definition AdminManagementService_get_all_non_staff ::
  "'r net \<Rightarrow> pyval \<Rightarrow> ServiceClient \<Rightarrow> (error + 'r) \<times> ServiceClient" where
  "AdminManagementService_get_all_non_staff net token c =
     (case normalise_token_payload token of
        Inl e \<Rightarrow> (Inl e, c)
      | Inr payload \<Rightarrow>
          returning (ServiceClient_post net ''/get_all_non_staff'' (json_kw payload) c))"

definition AdminManagementService_change_account_status ::
  "'r net \<Rightarrow> pyval \<Rightarrow> string \<Rightarrow> string \<Rightarrow> ServiceClient \<Rightarrow> (error + 'r) \<times> ServiceClient" where
  "AdminManagementService_change_account_status net token user_email new_status c =
     (case normalise_token_payload token of
        Inl e \<Rightarrow> (Inl e, c)
      | Inr payload \<Rightarrow>
          returning (ServiceClient_post net ''/change_account_status''
            \<lparr>json = Some payload,
             params = Some (PDict [(''user_email'', PStr user_email),
                                   (''new_status'', PStr new_status)]),
             auth = None\<rparr> c))"

definition AdminManagementService_health_check ::
  "'r net \<Rightarrow> ServiceClient \<Rightarrow> (error + 'r) \<times> ServiceClient" where
  "AdminManagementService_health_check net c =
     returning (ServiceClient_get net ''/health'' no_kwargs c)"

subsection \<open>AlertAndEventProcessingService\<close>

definition AlertAndEventProcessingService_root ::
  "'r net \<Rightarrow> ServiceClient \<Rightarrow> (error + 'r) \<times> ServiceClient" where
  "AlertAndEventProcessingService_root net c =
     returning (ServiceClient_get net ''/'' no_kwargs c)"

definition AlertAndEventProcessingService_health_check ::
  "'r net \<Rightarrow> ServiceClient \<Rightarrow> (error + 'r) \<times> ServiceClient" where
  "AlertAndEventProcessingService_health_check net c =
     returning (ServiceClient_get net ''/health'' no_kwargs c)"

subsection \<open>DeviceCommandService\<close>

definition DeviceCommandService_health_check ::
  "'r net \<Rightarrow> ServiceClient \<Rightarrow> (error + 'r) \<times> ServiceClient" where
  "DeviceCommandService_health_check net c =
     returning (ServiceClient_get net ''/health'' no_kwargs c)"

definition DeviceCommandService_add_command ::
  "'r net \<Rightarrow> pyval \<Rightarrow> ServiceClient \<Rightarrow> (error + 'r) \<times> ServiceClient" where
  "DeviceCommandService_add_command net command_data c =
     returning (ServiceClient_post net ''/add_command'' (json_kw command_data) c)"

definition DeviceCommandService_get_commands ::
  "'r net \<Rightarrow> string \<Rightarrow> ServiceClient \<Rightarrow> (error + 'r) \<times> ServiceClient" where
  "DeviceCommandService_get_commands net device_id c =
     returning (ServiceClient_get net (''/commands/'' @ device_id) no_kwargs c)"

definition DeviceCommandService_delete_commands ::
  "'r net \<Rightarrow> string \<Rightarrow> ServiceClient \<Rightarrow> (error + 'r) \<times> ServiceClient" where
  "DeviceCommandService_delete_commands net device_id c =
     returning (ServiceClient_delete net (''/commands/delete/'' @ device_id) no_kwargs c)"

subsection \<open>DeviceOnboardingService\<close>

definition DeviceOnboardingService_health_check ::
  "'r net \<Rightarrow> ServiceClient \<Rightarrow> (error + 'r) \<times> ServiceClient" where
  "DeviceOnboardingService_health_check net c =
     returning (ServiceClient_get net ''/health'' no_kwargs c)"

definition DeviceOnboardingService_add_new_device ::
  "'r net \<Rightarrow> pyval \<Rightarrow> ServiceClient \<Rightarrow> (error + 'r) \<times> ServiceClient" where
  "DeviceOnboardingService_add_new_device net device_data c =
     returning (ServiceClient_post net ''/add_new_device'' (json_kw device_data) c)"

definition DeviceOnboardingService_get_my_devices ::
  "'r net \<Rightarrow> ident \<Rightarrow> ServiceClient \<Rightarrow> (error + 'r) \<times> ServiceClient" where
  "DeviceOnboardingService_get_my_devices net user_id c =
     returning (ServiceClient_get net (''/get_my_devices/'' @ format_ident user_id) no_kwargs c)"

definition DeviceOnboardingService_get_user_id_by_device_id ::
  "'r net \<Rightarrow> string \<Rightarrow> ServiceClient \<Rightarrow> (error + 'r) \<times> ServiceClient" where
  "DeviceOnboardingService_get_user_id_by_device_id net device_id c =
     returning (ServiceClient_get net (''/get_user_id_by_device_id/'' @ device_id) no_kwargs c)"

subsection \<open>DeviceTelemetryService\<close>

definition DeviceTelemetryService_health_check ::
  "'r net \<Rightarrow> ServiceClient \<Rightarrow> (error + 'r) \<times> ServiceClient" where
  "DeviceTelemetryService_health_check net c =
     returning (ServiceClient_get net ''/health'' no_kwargs c)"

definition DeviceTelemetryService_get_latest ::
  "'r net \<Rightarrow> string \<Rightarrow> ServiceClient \<Rightarrow> (error + 'r) \<times> ServiceClient" where
  "DeviceTelemetryService_get_latest net device_id c =
     returning (ServiceClient_get net (''/latest/'' @ device_id) no_kwargs c)"

definition DeviceTelemetryService_get_device_status ::
  "'r net \<Rightarrow> string \<Rightarrow> ServiceClient \<Rightarrow> (error + 'r) \<times> ServiceClient" where
  "DeviceTelemetryService_get_device_status net device_id c =
     returning (ServiceClient_get net (''/device/status/'' @ device_id) no_kwargs c)"

subsection \<open>HealthMonitoringService\<close>

definition HealthMonitoringService_health_check ::
  "'r net \<Rightarrow> ServiceClient \<Rightarrow> (error + 'r) \<times> ServiceClient" where
  "HealthMonitoringService_health_check net c =
     returning (ServiceClient_get net ''/health'' no_kwargs c)"

definition HealthMonitoringService_get_latest_health ::
  "'r net \<Rightarrow> string \<Rightarrow> ServiceClient \<Rightarrow> (error + 'r) \<times> ServiceClient" where
  "HealthMonitoringService_get_latest_health net device_id c =
     returning (ServiceClient_get net (''/'' @ device_id @ ''/latest'') no_kwargs c)"

subsection \<open>NotificationMicroserviceService\<close>

definition NotificationMicroserviceService_root ::
  "'r net \<Rightarrow> ServiceClient \<Rightarrow> (error + 'r) \<times> ServiceClient" where
  "NotificationMicroserviceService_root net c =
     returning (ServiceClient_get net ''/'' no_kwargs c)"

definition NotificationMicroserviceService_health_check ::
  "'r net \<Rightarrow> ServiceClient \<Rightarrow> (error + 'r) \<times> ServiceClient" where
  "NotificationMicroserviceService_health_check net c =
     returning (ServiceClient_get net ''/health'' no_kwargs c)"

subsection \<open>ParkingSlotService\<close>

definition ParkingSlotService_create_parking_slot ::
  "'r net \<Rightarrow> pyval \<Rightarrow> pyval \<Rightarrow> ServiceClient \<Rightarrow> (error + 'r) \<times> ServiceClient" where
  "ParkingSlotService_create_parking_slot net slot_data token c =
     (case normalise_token_payload token of
        Inl e \<Rightarrow> (Inl e, c)
      | Inr payload \<Rightarrow>
          (let body = PDict [(''payload'', slot_data), (''authorization'', payload)]
           in returning (ServiceClient_post net ''/parking_slots'' (json_kw body) c)))"

definition ParkingSlotService_list_parking_slots ::
  "'r net \<Rightarrow> string option \<Rightarrow> ServiceClient \<Rightarrow> (error + 'r) \<times> ServiceClient" where
  "ParkingSlotService_list_parking_slots net status c =
     (let ps = (case status of
                  Some s \<Rightarrow> if s \<noteq> [] then Some (PDict [(''status'', PStr s)]) else None
                | None \<Rightarrow> None)
      in returning (ServiceClient_get net ''/parking_slots''
           \<lparr>json = None, params = ps, auth = None\<rparr> c))"

definition ParkingSlotService_get_parking_slot ::
  "'r net \<Rightarrow> string \<Rightarrow> ServiceClient \<Rightarrow> (error + 'r) \<times> ServiceClient" where
  "ParkingSlotService_get_parking_slot net slot_id c =
     returning (ServiceClient_get net (''/parking_slots/'' @ slot_id) no_kwargs c)"

definition ParkingSlotService_update_parking_slot ::
  "'r net \<Rightarrow> string \<Rightarrow> pyval \<Rightarrow> pyval \<Rightarrow> ServiceClient \<Rightarrow> (error + 'r) \<times> ServiceClient" where
  "ParkingSlotService_update_parking_slot net slot_id updates token c =
     (case normalise_token_payload token of
        Inl e \<Rightarrow> (Inl e, c)
      | Inr payload \<Rightarrow>
          (let body = PDict [(''payload'', updates), (''authorization'', payload)]
           in returning (ServiceClient_put net (''/parking_slots/'' @ slot_id) (json_kw body) c)))"

definition ParkingSlotService_delete_parking_slot ::
  "'r net \<Rightarrow> string \<Rightarrow> pyval \<Rightarrow> ServiceClient \<Rightarrow> (error + 'r) \<times> ServiceClient" where
  "ParkingSlotService_delete_parking_slot net slot_id token c =
     (case normalise_token_payload token of
        Inl e \<Rightarrow> (Inl e, c)
      | Inr payload \<Rightarrow>
          (let body = PDict [(''authorization'', payload)]
           in returning
                (ServiceClient_delete net (''/parking_slots/'' @ slot_id) (json_kw body) c)))"

definition ParkingSlotService_assign_parking_slot ::
  "'r net \<Rightarrow> string \<Rightarrow> pyval \<Rightarrow> pyval \<Rightarrow> ServiceClient \<Rightarrow> (error + 'r) \<times> ServiceClient" where
  "ParkingSlotService_assign_parking_slot net slot_id assignment token c =
     (case normalise_token_payload token of
        Inl e \<Rightarrow> (Inl e, c)
      | Inr payload \<Rightarrow>
          (let body = PDict [(''body'', assignment), (''authorization'', payload)]
           in returning
                (ServiceClient_post net (''/parking_slots/'' @ slot_id @ ''/assign'')
                   (json_kw body) c)))"

definition ParkingSlotService_release_parking_slot ::
  "'r net \<Rightarrow> string \<Rightarrow> pyval \<Rightarrow> ServiceClient \<Rightarrow> (error + 'r) \<times> ServiceClient" where
  "ParkingSlotService_release_parking_slot net slot_id token c =
     (case normalise_token_payload token of
        Inl e \<Rightarrow> (Inl e, c)
      | Inr payload \<Rightarrow>
          (let body = PDict [(''authorization'', payload)]
           in returning
                (ServiceClient_post net (''/parking_slots/'' @ slot_id @ ''/release'')
                   (json_kw body) c)))"

subsection \<open>UserAuthenticationService\<close>

definition UserAuthenticationService_health_check ::
  "'r net \<Rightarrow> ServiceClient \<Rightarrow> (error + 'r) \<times> ServiceClient" where
  "UserAuthenticationService_health_check net c =
     returning (ServiceClient_get net ''/health'' no_kwargs c)"

definition UserAuthenticationService_register_user ::
  "'r net \<Rightarrow> pyval \<Rightarrow> ServiceClient \<Rightarrow> (error + 'r) \<times> ServiceClient" where
  "UserAuthenticationService_register_user net user_data c =
     returning (ServiceClient_post net ''/register'' (json_kw user_data) c)"

text \<open>
  The \<^verbatim>\<open>if/elif\<close> chain of \<^verbatim>\<open>login_user\<close> that builds \<^verbatim>\<open>auth_obj\<close>: an instance of
  \<^verbatim>\<open>httpx.Auth\<close> is taken as it is; an object with both attributes \<^verbatim>\<open>username\<close> and
  \<^verbatim>\<open>password\<close> gives a \<^verbatim>\<open>BasicAuth\<close> of them; a dict gives a \<^verbatim>\<open>BasicAuth\<close> of its
  \<^verbatim>\<open>email\<close> (or else \<^verbatim>\<open>username\<close>) and \<^verbatim>\<open>password\<close>, or \<^verbatim>\<open>ValueError\<close> when either
  is missing or false; anything else is a \<^verbatim>\<open>TypeError\<close>. An exception of the
  \<^verbatim>\<open>BasicAuth\<close> constructor leaves \<^verbatim>\<open>login_user\<close> before anything is sent.
\<close>

fun login_user_auth_obj :: "httpx \<Rightarrow> pyval \<Rightarrow> error + pyval" where
  "login_user_auth_obj lib (PAuth n) = Inr (PAuth n)"
| "login_user_auth_obj lib (PBasicAuth u p) = Inr (PBasicAuth u p)"
| "login_user_auth_obj lib (PObj attrs) =
     (if hasattr (PObj attrs) ''username'' \<and> hasattr (PObj attrs) ''password''
      then BasicAuth lib (getattr (PObj attrs) ''username'') (getattr (PObj attrs) ''password'')
      else Inl (TypeError ''Unsupported credentials type for login_user''))"
| "login_user_auth_obj lib (PDict credentials) =
     (let email = py_or (dict_get credentials ''email'') (dict_get credentials ''username'');
          password = dict_get credentials ''password''
      in if \<not> truthy email \<or> \<not> truthy password
         then Inl (ValueError ''Credentials must include email/username and password'')
         else BasicAuth lib email password)"
| "login_user_auth_obj lib v = Inl (TypeError ''Unsupported credentials type for login_user'')"

definition UserAuthenticationService_login_user ::
  "httpx \<Rightarrow> 'r net \<Rightarrow> pyval \<Rightarrow> ServiceClient \<Rightarrow> (error + 'r) \<times> ServiceClient" where
  "UserAuthenticationService_login_user lib net credentials c =
     (case login_user_auth_obj lib credentials of
        Inl e \<Rightarrow> (Inl e, c)
      | Inr auth_obj \<Rightarrow>
          returning (ServiceClient_post net ''/login''
            \<lparr>json = None, params = None, auth = Some auth_obj\<rparr> c))"

definition UserAuthenticationService_validate_token ::
  "'r net \<Rightarrow> pyval \<Rightarrow> ServiceClient \<Rightarrow> (error + 'r) \<times> ServiceClient" where
  "UserAuthenticationService_validate_token net token c =
     (case normalise_token_payload token of
        Inl e \<Rightarrow> (Inl e, c)
      | Inr payload \<Rightarrow> returning (ServiceClient_post net ''/validate'' (json_kw payload) c))"

definition UserAuthenticationService_get_user ::
  "'r net \<Rightarrow> ident \<Rightarrow> ServiceClient \<Rightarrow> (error + 'r) \<times> ServiceClient" where
  "UserAuthenticationService_get_user net user_id c =
     returning (ServiceClient_get net (''/user/'' @ format_ident user_id) no_kwargs c)"

definition UserAuthenticationService_make_admin ::
  "'r net \<Rightarrow> ident \<Rightarrow> ServiceClient \<Rightarrow> (error + 'r) \<times> ServiceClient" where
  "UserAuthenticationService_make_admin net user_id c =
     returning
       (ServiceClient_post net (''/user/'' @ format_ident user_id @ ''/make_admin'') no_kwargs c)"

definition UserAuthenticationService_get_all_non_staff ::
  "'r net \<Rightarrow> pyval \<Rightarrow> ServiceClient \<Rightarrow> (error + 'r) \<times> ServiceClient" where
  "UserAuthenticationService_get_all_non_staff net token c =
     (case normalise_token_payload token of
        Inl e \<Rightarrow> (Inl e, c)
      | Inr payload \<Rightarrow>
          returning (ServiceClient_post net ''/users/non_staff'' (json_kw payload) c))"

definition UserAuthenticationService_change_account_status ::
  "'r net \<Rightarrow> pyval \<Rightarrow> string \<Rightarrow> string \<Rightarrow> ServiceClient \<Rightarrow> (error + 'r) \<times> ServiceClient" where
  "UserAuthenticationService_change_account_status net token target_user_email new_status c =
     (case normalise_token_payload token of
        Inl e \<Rightarrow> (Inl e, c)
      | Inr payload \<Rightarrow>
          returning (ServiceClient_post net ''/change_account_status''
            \<lparr>json = Some payload,
             params = Some (PDict [(''target_user_email'', PStr target_user_email),
                                   (''new_status'', PStr new_status)]),
             auth = None\<rparr> c))"

text \<open>Every facade's \<^verbatim>\<open>close\<close> closes its client.\<close>

definition facade_close :: "ServiceClient \<Rightarrow> ServiceClient" where
  "facade_close c = ServiceClient_close c"

subsection \<open>The methods of all facades\<close>

text \<open>
  One constructor for each endpoint method of each class, with the method's arguments, so
  that a statement can range over every facade method.
\<close>

datatype facade_call =
    Admin_register_admin pyval
  | Admin_get_all_non_staff pyval
  | Admin_change_account_status pyval string string
  | Admin_health_check
  | Alert_root
  | Alert_health_check
  | Command_health_check
  | Command_add_command pyval
  | Command_get_commands string
  | Command_delete_commands string
  | Onboarding_health_check
  | Onboarding_add_new_device pyval
  | Onboarding_get_my_devices ident
  | Onboarding_get_user_id_by_device_id string
  | Telemetry_health_check
  | Telemetry_get_latest string
  | Telemetry_get_device_status string
  | Health_health_check
  | Health_get_latest_health string
  | Notification_root
  | Notification_health_check
  | Parking_create_parking_slot pyval pyval
  | Parking_list_parking_slots "string option"
  | Parking_get_parking_slot string
  | Parking_update_parking_slot string pyval pyval
  | Parking_delete_parking_slot string pyval
  | Parking_assign_parking_slot string pyval pyval
  | Parking_release_parking_slot string pyval
  | UserAuth_health_check
  | UserAuth_register_user pyval
  | UserAuth_login_user pyval
  | UserAuth_validate_token pyval
  | UserAuth_get_user ident
  | UserAuth_make_admin ident
  | UserAuth_get_all_non_staff pyval
  | UserAuth_change_account_status pyval string string

fun invoke ::
  "httpx \<Rightarrow> 'r net \<Rightarrow> facade_call \<Rightarrow> ServiceClient \<Rightarrow> (error + 'r) \<times> ServiceClient" where
  "invoke lib net (Admin_register_admin d) c = AdminManagementService_register_admin net d c"
| "invoke lib net (Admin_get_all_non_staff t) c = AdminManagementService_get_all_non_staff net t c"
| "invoke lib net (Admin_change_account_status t e s) c =
     AdminManagementService_change_account_status net t e s c"
| "invoke lib net Admin_health_check c = AdminManagementService_health_check net c"
| "invoke lib net Alert_root c = AlertAndEventProcessingService_root net c"
| "invoke lib net Alert_health_check c = AlertAndEventProcessingService_health_check net c"
| "invoke lib net Command_health_check c = DeviceCommandService_health_check net c"
| "invoke lib net (Command_add_command d) c = DeviceCommandService_add_command net d c"
| "invoke lib net (Command_get_commands i) c = DeviceCommandService_get_commands net i c"
| "invoke lib net (Command_delete_commands i) c = DeviceCommandService_delete_commands net i c"
| "invoke lib net Onboarding_health_check c = DeviceOnboardingService_health_check net c"
| "invoke lib net (Onboarding_add_new_device d) c = DeviceOnboardingService_add_new_device net d c"
| "invoke lib net (Onboarding_get_my_devices u) c = DeviceOnboardingService_get_my_devices net u c"
| "invoke lib net (Onboarding_get_user_id_by_device_id i) c =
     DeviceOnboardingService_get_user_id_by_device_id net i c"
| "invoke lib net Telemetry_health_check c = DeviceTelemetryService_health_check net c"
| "invoke lib net (Telemetry_get_latest i) c = DeviceTelemetryService_get_latest net i c"
| "invoke lib net (Telemetry_get_device_status i) c =
     DeviceTelemetryService_get_device_status net i c"
| "invoke lib net Health_health_check c = HealthMonitoringService_health_check net c"
| "invoke lib net (Health_get_latest_health i) c =
     HealthMonitoringService_get_latest_health net i c"
| "invoke lib net Notification_root c = NotificationMicroserviceService_root net c"
| "invoke lib net Notification_health_check c = NotificationMicroserviceService_health_check net c"
| "invoke lib net (Parking_create_parking_slot d t) c =
     ParkingSlotService_create_parking_slot net d t c"
| "invoke lib net (Parking_list_parking_slots s) c = ParkingSlotService_list_parking_slots net s c"
| "invoke lib net (Parking_get_parking_slot i) c = ParkingSlotService_get_parking_slot net i c"
| "invoke lib net (Parking_update_parking_slot i d t) c =
     ParkingSlotService_update_parking_slot net i d t c"
| "invoke lib net (Parking_delete_parking_slot i t) c =
     ParkingSlotService_delete_parking_slot net i t c"
| "invoke lib net (Parking_assign_parking_slot i d t) c =
     ParkingSlotService_assign_parking_slot net i d t c"
| "invoke lib net (Parking_release_parking_slot i t) c =
     ParkingSlotService_release_parking_slot net i t c"
| "invoke lib net UserAuth_health_check c = UserAuthenticationService_health_check net c"
| "invoke lib net (UserAuth_register_user d) c = UserAuthenticationService_register_user net d c"
| "invoke lib net (UserAuth_login_user cr) c = UserAuthenticationService_login_user lib net cr c"
| "invoke lib net (UserAuth_validate_token t) c = UserAuthenticationService_validate_token net t c"
| "invoke lib net (UserAuth_get_user u) c = UserAuthenticationService_get_user net u c"
| "invoke lib net (UserAuth_make_admin u) c = UserAuthenticationService_make_admin net u c"
| "invoke lib net (UserAuth_get_all_non_staff t) c =
     UserAuthenticationService_get_all_non_staff net t c"
| "invoke lib net (UserAuth_change_account_status t e s) c =
     UserAuthenticationService_change_account_status net t e s c"

text \<open>The token argument of the methods that take one.\<close>

fun call_token :: "facade_call \<Rightarrow> pyval option" where
  "call_token (Admin_get_all_non_staff t) = Some t"
| "call_token (Admin_change_account_status t e s) = Some t"
| "call_token (Parking_create_parking_slot d t) = Some t"
| "call_token (Parking_update_parking_slot i d t) = Some t"
| "call_token (Parking_delete_parking_slot i t) = Some t"
| "call_token (Parking_assign_parking_slot i d t) = Some t"
| "call_token (Parking_release_parking_slot i t) = Some t"
| "call_token (UserAuth_validate_token t) = Some t"
| "call_token (UserAuth_get_all_non_staff t) = Some t"
| "call_token (UserAuth_change_account_status t e s) = Some t"
| "call_token other = None"

text \<open>
  The \<^verbatim>\<open>health_check\<close> method of each class, where the class defines one:
  \<^verbatim>\<open>ParkingSlotService\<close> does not.
\<close>

fun health_check :: "facade \<Rightarrow> facade_call option" where
  "health_check AdminManagementService = Some Admin_health_check"
| "health_check AlertAndEventProcessingService = Some Alert_health_check"
| "health_check DeviceCommandService = Some Command_health_check"
| "health_check DeviceOnboardingService = Some Onboarding_health_check"
| "health_check DeviceTelemetryService = Some Telemetry_health_check"
| "health_check HealthMonitoringService = Some Health_health_check"
| "health_check NotificationMicroserviceService = Some Notification_health_check"
| "health_check ParkingSlotService = None"
| "health_check UserAuthenticationService = Some UserAuth_health_check"

section \<open>Properties\<close>

subsection \<open>Unfolding the facades\<close>

lemmas verb_defs =
  ServiceClient_get_def ServiceClient_post_def ServiceClient_put_def ServiceClient_delete_def

lemmas facade_defs =
  AdminManagementService_register_admin_def AdminManagementService_get_all_non_staff_def
  AdminManagementService_change_account_status_def AdminManagementService_health_check_def
  AlertAndEventProcessingService_root_def AlertAndEventProcessingService_health_check_def
  DeviceCommandService_health_check_def DeviceCommandService_add_command_def
  DeviceCommandService_get_commands_def DeviceCommandService_delete_commands_def
  DeviceOnboardingService_health_check_def DeviceOnboardingService_add_new_device_def
  DeviceOnboardingService_get_my_devices_def DeviceOnboardingService_get_user_id_by_device_id_def
  DeviceTelemetryService_health_check_def DeviceTelemetryService_get_latest_def
  DeviceTelemetryService_get_device_status_def
  HealthMonitoringService_health_check_def HealthMonitoringService_get_latest_health_def
  NotificationMicroserviceService_root_def NotificationMicroserviceService_health_check_def
  ParkingSlotService_create_parking_slot_def ParkingSlotService_list_parking_slots_def
  ParkingSlotService_get_parking_slot_def ParkingSlotService_update_parking_slot_def
  ParkingSlotService_delete_parking_slot_def ParkingSlotService_assign_parking_slot_def
  ParkingSlotService_release_parking_slot_def
  UserAuthenticationService_health_check_def UserAuthenticationService_register_user_def
  UserAuthenticationService_login_user_def UserAuthenticationService_validate_token_def
  UserAuthenticationService_get_user_def UserAuthenticationService_make_admin_def
  UserAuthenticationService_get_all_non_staff_def
  UserAuthenticationService_change_account_status_def

text \<open>A token that is neither a string nor a dict is refused.\<close>

lemma normalise_token_payload_other:
  "\<not> isinstance_str t \<Longrightarrow> \<not> isinstance_dict t \<Longrightarrow>
   normalise_token_payload t =
     Inl (TypeError ''token must be a str or dict with token information'')"
  by (cases t) simp_all

text \<open>A method that fails leaves the client as it was: nothing was sent.\<close>

lemma invoke_error_unchanged:
  "fst (invoke lib net call c) = Inl e \<Longrightarrow> snd (invoke lib net call c) = c"
  by (cases call) (auto simp: facade_defs verb_defs returning_def Let_def split: sum.splits)

text \<open>No verb and no method touches the stored base URL.\<close>

lemma invoke_base_url: "base_url (snd (invoke lib net call c)) = base_url c"
  by (cases call) (auto simp: facade_defs verb_defs returning_def Let_def split: sum.splits)

lemma rstrip_slash_only_slashes: "set url \<subseteq> {CHR ''/''} \<Longrightarrow> rstrip_slash url = []"
  by (auto simp: rstrip_slash_def)

lemma rstrip_slash_default_url: "rstrip_slash (default_url f) = default_url f"
  by (cases f) (simp_all add: rstrip_slash_def)

lemma default_url_nonempty: "default_url f \<noteq> []"
  by (cases f) simp_all

subsection \<open>Token payload normalisation\<close>

text \<open>
  C1. A string \<open>s\<close> becomes the dict \<open>{token: s}\<close>; a dict with the key \<open>token\<close> becomes
  \<open>{token: m[token]}\<close>, its other keys dropped; a dict without that key is returned as it
  is; anything else raises \<^verbatim>\<open>TypeError\<close> (the library's invalid-argument error), and a
  facade method given such a token fails with that error with nothing sent: the client's
  record of transport calls is unchanged.
\<close>

theorem normalise_token_payload_spec:
  "(\<forall>s. normalise_token_payload (PStr s) = Inr (PDict [(''token'', PStr s)])) \<and>
   (\<forall>m v. map_of m ''token'' = Some v \<longrightarrow>
      normalise_token_payload (PDict m) = Inr (PDict [(''token'', v)])) \<and>
   (\<forall>m. map_of m ''token'' = None \<longrightarrow> normalise_token_payload (PDict m) = Inr (PDict m)) \<and>
   (\<forall>t. \<not> isinstance_str t \<and> \<not> isinstance_dict t \<longrightarrow>
      normalise_token_payload t =
        Inl (TypeError ''token must be a str or dict with token information'')) \<and>
   (\<forall>call t c. call_token call = Some t \<and> \<not> isinstance_str t \<and> \<not> isinstance_dict t \<longrightarrow>
      invoke lib net call c =
        (Inl (TypeError ''token must be a str or dict with token information''), c))"
proof (intro conjI allI impI)
  fix call t and c :: ServiceClient
  assume a: "call_token call = Some t \<and> \<not> isinstance_str t \<and> \<not> isinstance_dict t"
  then have t: "normalise_token_payload t =
      Inl (TypeError ''token must be a str or dict with token information'')"
    by (simp add: normalise_token_payload_other)
  from a have "call_token call = Some t" by simp
  then show "invoke lib net call c =
      (Inl (TypeError ''token must be a str or dict with token information''), c)"
    using t by (cases call) (simp_all add: facade_defs)
qed (simp_all add: normalise_token_payload_other)

theorem normalise_token_payload_spec_witness:
  "normalise_token_payload (PStr ''tok123'') = Inr (PDict [(''token'', PStr ''tok123'')]) \<and>
   normalise_token_payload (PDict [(''user'', PStr ''u''), (''token'', PStr ''t'')]) =
     Inr (PDict [(''token'', PStr ''t'')]) \<and>
   normalise_token_payload (PDict [(''user'', PStr ''u'')]) = Inr (PDict [(''user'', PStr ''u'')]) \<and>
   normalise_token_payload (PInt 5) =
     Inl (TypeError ''token must be a str or dict with token information'') \<and>
   invoke example_httpx (\<lambda>h rq. length h) (UserAuth_validate_token (PInt 5))
       \<lparr>base_url = ''http://x'', timeout = 30, calls = []\<rparr> =
     (Inl (TypeError ''token must be a str or dict with token information''),
      \<lparr>base_url = ''http://x'', timeout = 30, calls = []\<rparr>)"
  using normalise_token_payload_spec [where net = "\<lambda>h rq. length h" and lib = example_httpx]
  by (simp add: UserAuthenticationService_validate_token_def)

subsection \<open>Path normalisation\<close>

text \<open>
  C4. Normalising a path twice is the same as normalising it once, the result starts with
  the separator, and both \<open>health\<close> and \<open>/health\<close> normalise to \<open>/health\<close>. As a HOL
  function of the path alone, \<open>normalise\<close> is pure and deterministic.
\<close>

theorem normalise_idempotent:
  "normalise (normalise p) = normalise p \<and>
   take 1 (normalise p) = ''/'' \<and>
   normalise ''health'' = ''/health'' \<and>
   normalise ''/health'' = ''/health''"
  by (simp add: normalise_def)

theorem normalise_idempotent_witness:
  "normalise (normalise ''commands/7'') = normalise ''commands/7'' \<and>
   normalise ''commands/7'' = ''/commands/7''"
  using normalise_idempotent [of "''commands/7''"] by (simp add: normalise_def)

subsection \<open>Constructing a ServiceClient\<close>

text \<open>
  C8, as the code has it. An empty base URL makes the constructor raise \<^verbatim>\<open>ValueError\<close>
  (the library's invalid-configuration error). For a non-empty base URL the constructor
  strips the trailing slashes and creates the HTTP client on the result: when the HTTP
  library accepts that URL the client is constructed and stores it, and when the library
  refuses it the library's exception leaves the constructor. No verb, no \<^verbatim>\<open>close\<close> and
  no facade method changes the stored base URL afterwards.
\<close>

theorem ServiceClient_init_spec:
  "ServiceClient_init lib [] t = Inl (ValueError ''base_url is required'') \<and>
   (\<forall>url. url \<noteq> [] \<longrightarrow>
      ServiceClient_init lib url t =
        (case AsyncClient lib (rstrip_slash url) of
           None \<Rightarrow> Inr \<lparr>base_url = rstrip_slash url, timeout = t, calls = []\<rparr>
         | Some e \<Rightarrow> Inl e)) \<and>
   (\<forall>endpoint kw c.
      base_url (snd (ServiceClient_get net endpoint kw c)) = base_url c \<and>
      base_url (snd (ServiceClient_post net endpoint kw c)) = base_url c \<and>
      base_url (snd (ServiceClient_put net endpoint kw c)) = base_url c \<and>
      base_url (snd (ServiceClient_delete net endpoint kw c)) = base_url c) \<and>
   (\<forall>c. base_url (ServiceClient_close c) = base_url c) \<and>
   (\<forall>call c. base_url (snd (invoke lib net call c)) = base_url c)"
  by (simp add: ServiceClient_init_def verb_defs ServiceClient_close_def Let_def invoke_base_url
      split: option.split)

theorem ServiceClient_init_spec_witness:
  "ServiceClient_init example_httpx [] 30 = Inl (ValueError ''base_url is required'') \<and>
   ServiceClient_init example_httpx ''http://x/'' 30 =
     Inr \<lparr>base_url = ''http://x'', timeout = 30, calls = []\<rparr> \<and>
   base_url (snd (ServiceClient_get (\<lambda>h rq. length h) ''health'' no_kwargs
     \<lparr>base_url = ''http://x'', timeout = 30, calls = []\<rparr>)) = ''http://x''"
  using ServiceClient_init_spec [of example_httpx 30 "\<lambda>h rq. length h"]
  by (simp add: rstrip_slash_def AsyncClient_def example_httpx_def)

text \<open>
  C8, as it is worded: that construction succeeds for every non-empty base URL does not
  hold. The URL \<open>http://x\<close> followed by a line feed is not empty, the HTTP library refuses
  it when \<^verbatim>\<open>__init__\<close> creates the HTTP client, and no client is constructed.
\<close>

theorem ServiceClient_init_refused_url:
  "ServiceClient_init example_httpx (''http://x'' @ [CHR 0x0A]) 30 =
     Inl (InvalidURL ''Invalid non-printable ASCII character in URL'')"
  by (simp add: ServiceClient_init_def rstrip_slash_def AsyncClient_def example_httpx_def)

text \<open>
  C10. A non-empty base URL made of slashes only passes the emptiness check, which comes
  before the strip, and the client is constructed with the empty string as its stored base
  URL (the HTTP client is created on the empty string, which the library accepts).
\<close>

theorem ServiceClient_init_only_slashes:
  "url \<noteq> [] \<Longrightarrow> set url \<subseteq> {CHR ''/''} \<Longrightarrow>
   ServiceClient_init lib url t = Inr \<lparr>base_url = [], timeout = t, calls = []\<rparr>"
  by (simp add: ServiceClient_init_def rstrip_slash_only_slashes AsyncClient_def)

theorem ServiceClient_init_only_slashes_witness:
  "ServiceClient_init example_httpx ''/'' 30 =
     Inr \<lparr>base_url = [], timeout = 30, calls = []\<rparr> \<and>
   ServiceClient_init example_httpx ''///'' 30 =
     Inr \<lparr>base_url = [], timeout = 30, calls = []\<rparr>"
  using ServiceClient_init_only_slashes [of "''/''" example_httpx 30]
    ServiceClient_init_only_slashes [of "''///''" example_httpx 30]
  by simp

subsection \<open>Constructing a facade\<close>

text \<open>
  C2, as the code has it. With an empty (or no) explicit base URL and the facade's
  environment variable unset, every facade falls back to its hardcoded default URL: the
  emptiness check passes and the facade is constructed on the default, unless the HTTP
  library refuses that URL. Construction does fail, with the \<^verbatim>\<open>ValueError\<close> of the
  emptiness check, when the explicit base URL is absent or empty and the environment
  variable is set to the empty string.
\<close>

theorem facade_init_fallback:
  "(\<forall>f t env. env (env_var f) = None \<longrightarrow>
      facade_init lib f (Some []) t env =
        (case AsyncClient lib (default_url f) of
           None \<Rightarrow> Inr \<lparr>base_url = default_url f, timeout = t, calls = []\<rparr>
         | Some e \<Rightarrow> Inl e) \<and>
      facade_init lib f None t env =
        (case AsyncClient lib (default_url f) of
           None \<Rightarrow> Inr \<lparr>base_url = default_url f, timeout = t, calls = []\<rparr>
         | Some e \<Rightarrow> Inl e)) \<and>
   (\<forall>f b t env. (b = None \<or> b = Some []) \<and> env (env_var f) = Some [] \<longrightarrow>
      facade_init lib f b t env = Inl (ValueError ''base_url is required''))"
proof (intro conjI allI impI)
  fix f t and env :: "string \<rightharpoonup> string"
  assume "env (env_var f) = None"
  then show "facade_init lib f (Some []) t env =
      (case AsyncClient lib (default_url f) of
         None \<Rightarrow> Inr \<lparr>base_url = default_url f, timeout = t, calls = []\<rparr>
       | Some e \<Rightarrow> Inl e)"
    by (simp add: facade_init_def getenv_def ServiceClient_init_def
        default_url_nonempty rstrip_slash_default_url split: option.split)
next
  fix f t and env :: "string \<rightharpoonup> string"
  assume "env (env_var f) = None"
  then show "facade_init lib f None t env =
      (case AsyncClient lib (default_url f) of
         None \<Rightarrow> Inr \<lparr>base_url = default_url f, timeout = t, calls = []\<rparr>
       | Some e \<Rightarrow> Inl e)"
    by (simp add: facade_init_def getenv_def ServiceClient_init_def
        default_url_nonempty rstrip_slash_default_url split: option.split)
next
  fix f t and b :: "string option" and env :: "string \<rightharpoonup> string"
  assume "(b = None \<or> b = Some []) \<and> env (env_var f) = Some []"
  then show "facade_init lib f b t env = Inl (ValueError ''base_url is required'')"
    by (auto simp: facade_init_def getenv_def ServiceClient_init_def)
qed

theorem facade_init_fallback_witness:
  "facade_init example_httpx ParkingSlotService (Some []) 30 Map.empty =
     Inr \<lparr>base_url = ''http://parking-slot-service:8000'', timeout = 30, calls = []\<rparr> \<and>
   facade_init example_httpx AdminManagementService None 30 Map.empty =
     Inr \<lparr>base_url = ''http://admin-management-service:8000'', timeout = 30, calls = []\<rparr> \<and>
   facade_init example_httpx UserAuthenticationService (Some [])
       30 (Map.empty(''USER_AUTH_SERVICE_URL'' \<mapsto> [])) =
     Inl (ValueError ''base_url is required'')"
  using facade_init_fallback [of example_httpx]
  by (simp add: AsyncClient_def example_httpx_def)

text \<open>
  C2, as it is worded: that construction fails only on an explicitly passed empty string
  does not hold: with no explicit base URL at all and the environment variable set to the
  empty string the constructor raises, while an explicitly passed empty string, with the
  variable unset, does not make it fail.
\<close>

theorem facade_init_fails_on_empty_env:
  "facade_init example_httpx AdminManagementService None 30
     (Map.empty(''ADMIN_MANAGEMENT_SERVICE_URL'' \<mapsto> [])) =
     Inl (ValueError ''base_url is required'') \<and>
   facade_init example_httpx AdminManagementService (Some []) 30 Map.empty =
     Inr \<lparr>base_url = ''http://admin-management-service:8000'', timeout = 30, calls = []\<rparr>"
  by (simp add: facade_init_def getenv_def ServiceClient_init_def rstrip_slash_def
      AsyncClient_def example_httpx_def)

subsection \<open>Validation comes before the transport\<close>

lemma normalise_token_payload_error:
  "normalise_token_payload t = Inl e \<Longrightarrow>
   e = TypeError ''token must be a str or dict with token information''"
  by (cases t) (auto split: option.splits)

lemma BasicAuth_error:
  "BasicAuth lib u p = Inl e \<Longrightarrow> BasicAuth_raises lib u p = Some e"
  by (auto simp: BasicAuth_def split: if_splits option.splits)

lemma login_user_auth_obj_error:
  "login_user_auth_obj lib v = Inl e \<Longrightarrow>
   e = ValueError ''Credentials must include email/username and password'' \<or>
   e = TypeError ''Unsupported credentials type for login_user'' \<or>
   (\<exists>u p. BasicAuth_raises lib u p = Some e)"
  by (cases v) (auto simp: Let_def split: if_splits dest: BasicAuth_error)

text \<open>
  C3. Whatever the method and its arguments, a facade call either hands exactly one
  request to the transport and returns the transport's outcome for it as it is, or fails
  and leaves the client as it was, with nothing sent. The failures are the validation
  errors: a token of the wrong type, login credentials that are incomplete or of an
  unsupported type, and, in \<^verbatim>\<open>login_user\<close> only, what the \<^verbatim>\<open>BasicAuth\<close> constructor
  raises for credentials it refuses.
\<close>

theorem invoke_response_or_no_call:
  "(\<exists>rq. invoke lib net call c =
           (Inr (net (calls c) rq), c\<lparr>calls := calls c @ [Send rq]\<rparr>)) \<or>
   (\<exists>e. invoke lib net call c = (Inl e, c) \<and>
        (e \<in> {TypeError ''token must be a str or dict with token information'',
              ValueError ''Credentials must include email/username and password'',
              TypeError ''Unsupported credentials type for login_user''} \<or>
         (\<exists>cr u p. call = UserAuth_login_user cr \<and> BasicAuth_raises lib u p = Some e)))"
proof (cases "\<exists>cr. call = UserAuth_login_user cr")
  case True
  then obtain cr where cr: "call = UserAuth_login_user cr" by blast
  show ?thesis
  proof (cases "login_user_auth_obj lib cr")
    case (Inl e)
    with cr login_user_auth_obj_error [OF Inl] show ?thesis
      by (auto simp: UserAuthenticationService_login_user_def)
  next
    case (Inr a)
    with cr show ?thesis
      by (auto simp: UserAuthenticationService_login_user_def ServiceClient_post_def
          returning_def Let_def)
  qed
next
  case False
  then show ?thesis
    by (cases call)
       (auto simp: facade_defs verb_defs returning_def Let_def split: sum.splits
             dest: normalise_token_payload_error)
qed

theorem invoke_response_or_no_call_witness:
  "invoke example_httpx (\<lambda>h rq. length h) (Parking_get_parking_slot ''42'')
       \<lparr>base_url = ''http://x'', timeout = 30, calls = []\<rparr> =
     (Inr 0, \<lparr>base_url = ''http://x'', timeout = 30,
              calls = [Send \<lparr>req_verb = GET, req_path = ''/parking_slots/42'',
                             req_kwargs = no_kwargs\<rparr>]\<rparr>) \<and>
   invoke example_httpx (\<lambda>h rq. length h) (UserAuth_login_user (PInt 3))
       \<lparr>base_url = ''http://x'', timeout = 30, calls = []\<rparr> =
     (Inl (TypeError ''Unsupported credentials type for login_user''),
      \<lparr>base_url = ''http://x'', timeout = 30, calls = []\<rparr>) \<and>
   invoke example_httpx (\<lambda>h rq. length h)
       (UserAuth_login_user (PDict [(''email'', PStr ''a''), (''password'', PInt 123)]))
       \<lparr>base_url = ''http://x'', timeout = 30, calls = []\<rparr> =
     (Inl (TypeError ''expected a bytes-like object''),
      \<lparr>base_url = ''http://x'', timeout = 30, calls = []\<rparr>)"
  using invoke_response_or_no_call [of example_httpx "\<lambda>h rq. length h"
      "Parking_get_parking_slot ''42''"
      "\<lparr>base_url = ''http://x'', timeout = 30, calls = []\<rparr>"]
    invoke_response_or_no_call [of example_httpx "\<lambda>h rq. length h"
      "UserAuth_login_user (PInt 3)"
      "\<lparr>base_url = ''http://x'', timeout = 30, calls = []\<rparr>"]
    invoke_response_or_no_call [of example_httpx "\<lambda>h rq. length h"
      "UserAuth_login_user (PDict [(''email'', PStr ''a''), (''password'', PInt 123)])"
      "\<lparr>base_url = ''http://x'', timeout = 30, calls = []\<rparr>"]
  by (simp add: ParkingSlotService_get_parking_slot_def UserAuthenticationService_login_user_def
      ServiceClient_get_def returning_def normalise_def BasicAuth_def example_httpx_def
      dict_get_def py_or_def Let_def)

subsection \<open>The parking-slot envelope\<close>

text \<open>
  C5. Constructing a \<^verbatim>\<open>ParkingSlotService\<close> with the base URL \<open>http://x\<close> gives,
  whatever the environment, the client with that base URL (unless the HTTP library
  refuses the URL), and this client answers \<^verbatim>\<open>create_parking_slot({"spot": "A1"}, "tok123")\<close> with exactly one request: a
  POST to the path \<open>/parking_slots\<close>, that is to \<open>http://x/parking_slots\<close>, whose JSON
  body is \<open>{payload: {spot: A1}, authorization: {token: tok123}}\<close>. In general the
  envelope names the caller's data \<open>payload\<close> in create and update and \<open>body\<close> in assign.
\<close>

theorem create_parking_slot_envelope:
  "facade_init lib ParkingSlotService (Some ''http://x'') t env =
     (case AsyncClient_raises lib ''http://x'' of
        None \<Rightarrow> Inr \<lparr>base_url = ''http://x'', timeout = t, calls = []\<rparr>
      | Some e \<Rightarrow> Inl e) \<and>
   ParkingSlotService_create_parking_slot net (PDict [(''spot'', PStr ''A1'')]) (PStr ''tok123'')
       \<lparr>base_url = ''http://x'', timeout = t, calls = []\<rparr> =
     (Inr (net []
        \<lparr>req_verb = POST, req_path = ''/parking_slots'',
         req_kwargs = \<lparr>json = Some (PDict [(''payload'', PDict [(''spot'', PStr ''A1'')]),
                                             (''authorization'', PDict [(''token'', PStr ''tok123'')])]),
                        params = None, auth = None\<rparr>\<rparr>),
      \<lparr>base_url = ''http://x'', timeout = t,
       calls = [Send
        \<lparr>req_verb = POST, req_path = ''/parking_slots'',
         req_kwargs = \<lparr>json = Some (PDict [(''payload'', PDict [(''spot'', PStr ''A1'')]),
                                             (''authorization'', PDict [(''token'', PStr ''tok123'')])]),
                        params = None, auth = None\<rparr>\<rparr>]\<rparr>) \<and>
   request_url \<lparr>base_url = ''http://x'', timeout = t, calls = []\<rparr>
     \<lparr>req_verb = POST, req_path = ''/parking_slots'',
      req_kwargs = \<lparr>json = Some (PDict [(''payload'', PDict [(''spot'', PStr ''A1'')]),
                                          (''authorization'', PDict [(''token'', PStr ''tok123'')])]),
                     params = None, auth = None\<rparr>\<rparr> = ''http://x/parking_slots'' \<and>
   (\<forall>token payload d i c. normalise_token_payload token = Inr payload \<longrightarrow>
      calls (snd (ParkingSlotService_create_parking_slot net d token c)) =
        calls c @ [Send \<lparr>req_verb = POST, req_path = ''/parking_slots'',
          req_kwargs = json_kw (PDict [(''payload'', d), (''authorization'', payload)])\<rparr>] \<and>
      calls (snd (ParkingSlotService_update_parking_slot net i d token c)) =
        calls c @ [Send \<lparr>req_verb = PUT, req_path = ''/parking_slots/'' @ i,
          req_kwargs = json_kw (PDict [(''payload'', d), (''authorization'', payload)])\<rparr>] \<and>
      calls (snd (ParkingSlotService_assign_parking_slot net i d token c)) =
        calls c @ [Send \<lparr>req_verb = POST, req_path = ''/parking_slots/'' @ i @ ''/assign'',
          req_kwargs = json_kw (PDict [(''body'', d), (''authorization'', payload)])\<rparr>])"
  by (simp add: facade_init_def ServiceClient_init_def rstrip_slash_def AsyncClient_def
      ParkingSlotService_create_parking_slot_def ParkingSlotService_update_parking_slot_def
      ParkingSlotService_assign_parking_slot_def ServiceClient_post_def ServiceClient_put_def
      returning_def json_kw_def normalise_def request_url_def Let_def
      split: option.split)

theorem create_parking_slot_envelope_witness:
  "facade_init example_httpx ParkingSlotService (Some ''http://x'') 30 Map.empty =
     Inr \<lparr>base_url = ''http://x'', timeout = 30, calls = []\<rparr> \<and>
   calls (snd (ParkingSlotService_assign_parking_slot (\<lambda>h rq. length h) ''7''
       (PDict [(''user'', PStr ''u1'')]) (PDict [(''token'', PStr ''t''), (''exp'', PInt 9)])
       \<lparr>base_url = ''http://x'', timeout = 30, calls = []\<rparr>)) =
     [Send \<lparr>req_verb = POST, req_path = ''/parking_slots/7/assign'',
        req_kwargs = json_kw (PDict [(''body'', PDict [(''user'', PStr ''u1'')]),
                                     (''authorization'', PDict [(''token'', PStr ''t'')])])\<rparr>]"
  using create_parking_slot_envelope [of example_httpx 30 Map.empty "\<lambda>h rq. length h"]
  by (simp add: example_httpx_def)

subsection \<open>Logging in\<close>

text \<open>
  C6. \<^verbatim>\<open>login_user({"email": "a@b.com", "password": "p"})\<close> hands exactly one request to
  the transport: a POST to \<open>/login\<close> that carries the basic-auth credentials of user
  \<open>a@b.com\<close> and password \<open>p\<close>, and neither a JSON body nor query parameters. Among all
  facade methods, a request carries transport-level credentials only when it comes from
  \<^verbatim>\<open>login_user\<close>, and a request of \<^verbatim>\<open>login_user\<close> always carries them and never a JSON
  body.
\<close>

theorem login_user_basic_auth:
  "UserAuthenticationService_login_user lib net
       (PDict [(''email'', PStr ''a@b.com''), (''password'', PStr ''p'')]) c =
     (Inr (net (calls c)
        \<lparr>req_verb = POST, req_path = ''/login'',
         req_kwargs = \<lparr>json = None, params = None,
                        auth = Some (PBasicAuth (PStr ''a@b.com'') (PStr ''p''))\<rparr>\<rparr>),
      c\<lparr>calls := calls c @
        [Send \<lparr>req_verb = POST, req_path = ''/login'',
           req_kwargs = \<lparr>json = None, params = None,
                          auth = Some (PBasicAuth (PStr ''a@b.com'') (PStr ''p''))\<rparr>\<rparr>]\<rparr>) \<and>
   (\<forall>call rq. calls (snd (invoke lib net call c)) = calls c @ [Send rq] \<longrightarrow>
      (auth (req_kwargs rq) \<noteq> None \<longleftrightarrow> (\<exists>cr. call = UserAuth_login_user cr)) \<and>
      ((\<exists>cr. call = UserAuth_login_user cr) \<longrightarrow> json (req_kwargs rq) = None))"
proof (intro conjI allI impI)
  show "UserAuthenticationService_login_user lib net
       (PDict [(''email'', PStr ''a@b.com''), (''password'', PStr ''p'')]) c =
     (Inr (net (calls c)
        \<lparr>req_verb = POST, req_path = ''/login'',
         req_kwargs = \<lparr>json = None, params = None,
                        auth = Some (PBasicAuth (PStr ''a@b.com'') (PStr ''p''))\<rparr>\<rparr>),
      c\<lparr>calls := calls c @
        [Send \<lparr>req_verb = POST, req_path = ''/login'',
           req_kwargs = \<lparr>json = None, params = None,
                          auth = Some (PBasicAuth (PStr ''a@b.com'') (PStr ''p''))\<rparr>\<rparr>]\<rparr>)"
    by (simp add: UserAuthenticationService_login_user_def ServiceClient_post_def returning_def
        normalise_def dict_get_def py_or_def Let_def BasicAuth_def)
next
  fix call rq
  assume a: "calls (snd (invoke lib net call c)) = calls c @ [Send rq]"
  then show "auth (req_kwargs rq) \<noteq> None \<longleftrightarrow> (\<exists>cr. call = UserAuth_login_user cr)"
    by (cases call)
       (auto simp: facade_defs verb_defs returning_def Let_def json_kw_def no_kwargs_def
             split: sum.splits)
next
  fix call rq
  assume a: "calls (snd (invoke lib net call c)) = calls c @ [Send rq]"
    and l: "\<exists>cr. call = UserAuth_login_user cr"
  then show "json (req_kwargs rq) = None"
    by (auto simp: UserAuthenticationService_login_user_def ServiceClient_post_def
        returning_def Let_def split: sum.splits)
qed

theorem login_user_basic_auth_witness:
  "calls (snd (invoke example_httpx (\<lambda>h rq. length h)
       (UserAuth_login_user (PDict [(''email'', PStr ''a@b.com''), (''password'', PStr ''p'')]))
       \<lparr>base_url = ''http://x'', timeout = 30, calls = []\<rparr>)) =
     [Send \<lparr>req_verb = POST, req_path = ''/login'',
        req_kwargs = \<lparr>json = None, params = None,
                       auth = Some (PBasicAuth (PStr ''a@b.com'') (PStr ''p''))\<rparr>\<rparr>] \<and>
   auth (req_kwargs \<lparr>req_verb = POST, req_path = ''/login'',
        req_kwargs = \<lparr>json = None, params = None,
                       auth = Some (PBasicAuth (PStr ''a@b.com'') (PStr ''p''))\<rparr>\<rparr>) \<noteq> None"
  using login_user_basic_auth [of example_httpx "\<lambda>h rq. length h"
      "\<lparr>base_url = ''http://x'', timeout = 30, calls = []\<rparr>"]
  by simp

text \<open>
  C7. A credentials dict without the key \<open>password\<close>, or with neither \<open>email\<close> nor
  \<open>username\<close>, makes \<^verbatim>\<open>login_user\<close> raise \<^verbatim>\<open>ValueError\<close>; credentials that are neither
  an \<^verbatim>\<open>httpx.Auth\<close>, nor an object with \<open>username\<close> and \<open>password\<close>, nor a dict make it
  raise \<^verbatim>\<open>TypeError\<close> (both are the library's invalid-argument errors). In each case
  the client is left as it was: nothing has been sent.
\<close>

theorem login_user_rejects:
  "(\<forall>d. map_of d ''password'' = None \<longrightarrow>
      UserAuthenticationService_login_user lib net (PDict d) c =
        (Inl (ValueError ''Credentials must include email/username and password''), c)) \<and>
   (\<forall>d. map_of d ''email'' = None \<and> map_of d ''username'' = None \<longrightarrow>
      UserAuthenticationService_login_user lib net (PDict d) c =
        (Inl (ValueError ''Credentials must include email/username and password''), c)) \<and>
   (\<forall>v. \<not> isinstance_Auth v \<and> \<not> (hasattr v ''username'' \<and> hasattr v ''password'') \<and>
        \<not> isinstance_dict v \<longrightarrow>
      UserAuthenticationService_login_user lib net v c =
        (Inl (TypeError ''Unsupported credentials type for login_user''), c))"
proof (intro conjI allI impI)
  fix d :: "(string \<times> pyval) list"
  assume "map_of d ''password'' = None"
  then show "UserAuthenticationService_login_user lib net (PDict d) c =
      (Inl (ValueError ''Credentials must include email/username and password''), c)"
    by (simp add: UserAuthenticationService_login_user_def dict_get_def Let_def)
next
  fix d :: "(string \<times> pyval) list"
  assume "map_of d ''email'' = None \<and> map_of d ''username'' = None"
  then show "UserAuthenticationService_login_user lib net (PDict d) c =
      (Inl (ValueError ''Credentials must include email/username and password''), c)"
    by (simp add: UserAuthenticationService_login_user_def dict_get_def py_or_def Let_def)
next
  fix v
  assume "\<not> isinstance_Auth v \<and> \<not> (hasattr v ''username'' \<and> hasattr v ''password'') \<and>
        \<not> isinstance_dict v"
  then show "UserAuthenticationService_login_user lib net v c =
      (Inl (TypeError ''Unsupported credentials type for login_user''), c)"
    by (cases v) (auto simp: UserAuthenticationService_login_user_def)
qed

theorem login_user_rejects_witness:
  "UserAuthenticationService_login_user example_httpx (\<lambda>h rq. length h) (PDict [(''email'', PStr ''a@b.com'')])
       \<lparr>base_url = ''http://x'', timeout = 30, calls = []\<rparr> =
     (Inl (ValueError ''Credentials must include email/username and password''),
      \<lparr>base_url = ''http://x'', timeout = 30, calls = []\<rparr>) \<and>
   UserAuthenticationService_login_user example_httpx (\<lambda>h rq. length h) (PDict [(''password'', PStr ''p'')])
       \<lparr>base_url = ''http://x'', timeout = 30, calls = []\<rparr> =
     (Inl (ValueError ''Credentials must include email/username and password''),
      \<lparr>base_url = ''http://x'', timeout = 30, calls = []\<rparr>) \<and>
   UserAuthenticationService_login_user example_httpx (\<lambda>h rq. length h) (PStr ''a@b.com:p'')
       \<lparr>base_url = ''http://x'', timeout = 30, calls = []\<rparr> =
     (Inl (TypeError ''Unsupported credentials type for login_user''),
      \<lparr>base_url = ''http://x'', timeout = 30, calls = []\<rparr>)"
  using login_user_rejects [of example_httpx "\<lambda>h rq. length h"
      "\<lparr>base_url = ''http://x'', timeout = 30, calls = []\<rparr>"]
  by simp

subsection \<open>Health checks\<close>

text \<open>
  C9. Every facade other than \<^verbatim>\<open>AdminManagementService\<close>, \<^verbatim>\<open>UserAuthenticationService\<close>
  and \<^verbatim>\<open>ParkingSlotService\<close> has a \<^verbatim>\<open>health_check\<close> method, and calling it hands
  exactly one request to the transport, a GET of \<open>/health\<close> with no arguments, addressed
  to the client's base URL followed by \<open>/health\<close>, and returns the transport's outcome.
\<close>

theorem health_check_uniform:
  "f \<notin> {AdminManagementService, UserAuthenticationService, ParkingSlotService} \<Longrightarrow>
   \<exists>call. health_check f = Some call \<and>
     invoke lib net call c =
       (Inr (net (calls c) \<lparr>req_verb = GET, req_path = ''/health'', req_kwargs = no_kwargs\<rparr>),
        c\<lparr>calls := calls c @
          [Send \<lparr>req_verb = GET, req_path = ''/health'', req_kwargs = no_kwargs\<rparr>]\<rparr>) \<and>
     request_url c \<lparr>req_verb = GET, req_path = ''/health'', req_kwargs = no_kwargs\<rparr> =
       base_url c @ ''/health''"
  by (cases f)
     (simp_all add: facade_defs ServiceClient_get_def returning_def normalise_def Let_def
        request_url_def)

theorem health_check_uniform_witness:
  "health_check DeviceTelemetryService = Some Telemetry_health_check \<and>
   invoke example_httpx (\<lambda>h rq. length h) Telemetry_health_check
       \<lparr>base_url = ''http://x'', timeout = 30, calls = []\<rparr> =
     (Inr 0, \<lparr>base_url = ''http://x'', timeout = 30,
        calls = [Send \<lparr>req_verb = GET, req_path = ''/health'', req_kwargs = no_kwargs\<rparr>]\<rparr>)"
  using health_check_uniform [of DeviceTelemetryService example_httpx "\<lambda>h rq. length h"
      "\<lparr>base_url = ''http://x'', timeout = 30, calls = []\<rparr>"]
  by simp

text \<open>
  Of the three classes left out, \<^verbatim>\<open>AdminManagementService\<close> and
  \<^verbatim>\<open>UserAuthenticationService\<close> define the same \<^verbatim>\<open>health_check\<close>;
  \<^verbatim>\<open>ParkingSlotService\<close> defines none.
\<close>

lemma health_check_other_facades:
  "health_check AdminManagementService = Some Admin_health_check \<and>
   health_check UserAuthenticationService = Some UserAuth_health_check \<and>
   health_check ParkingSlotService = None \<and>
   invoke lib net Admin_health_check c = invoke lib net Alert_health_check c \<and>
   invoke lib net UserAuth_health_check c = invoke lib net Alert_health_check c"
  by (simp add: AdminManagementService_health_check_def
      UserAuthenticationService_health_check_def AlertAndEventProcessingService_health_check_def)

end
